theory Spec2Isabelle
  imports Main "HOL-Library.Word"
begin

section \<open>Data model\<close>

text \<open>
  The package \<open>srcds\<close> of the proxy: the socket factory (\<open>Dial\<close>, \<open>Listen\<close>), the read and
  dispatch loop (\<open>Serve\<close>, \<open>doHandle\<close>) and the buffer pool. Everything the Go code obtains
  from the operating system, the Go runtime or a collaborator outside these two files is an
  explicit argument of the model.
\<close>

type_synonym byte = "8 word"

text \<open>A Go \<open>error\<close> value; \<open>nil\<close> is \<open>None\<close> of \<open>error option\<close>.\<close>

datatype error = Error string

text \<open>\<open>net.UDPAddr\<close>; a \<open>*net.UDPAddr\<close> is a \<open>UDPAddr option\<close>, \<open>nil\<close> being \<open>None\<close>.\<close>

datatype UDPAddr = UDPAddr (IP: "byte list") (Port: int)

text \<open>
  \<open>net.UDPConn\<close>: the socket, the peer it is connected to (\<open>None\<close> for a listening
  socket), the local address it is bound to, and the sizes last set for its write buffer
  and its read buffer.
\<close>

record UDPConn =
  fd :: nat
  remote_addr :: "UDPAddr option"
  local_addr :: "UDPAddr option"
  sndbuf :: nat
  rcvbuf :: nat

text \<open>
  A \<open>context.Context\<close> as the chain of constructors that built it; the duration of
  \<open>WithTimeout\<close> is a \<open>time.Duration\<close>.
\<close>

datatype ctx = Background | WithCancel ctx | WithTimeout ctx int

text \<open>
  \<open>NewConnectionWriter\<close> is not in the two files: the response writer is the pair of the
  connection and the sender's address pointer it was made from.
\<close>

datatype ResponseWriter = NewConnectionWriter UDPConn "UDPAddr option"

text \<open>
  What the package uses and the two files do not declare: the constant \<open>MaxDatagramSize\<close>
  (a constant size of \<open>make\<close>, so not negative), \<open>config.HandleTimeout\<close>, and the two pure
  conversions \<open>BytesToMessage\<close> and \<open>UDPAddrToAddressPort\<close>.
\<close>

record ('msg, 'ap) pkg =
  MaxDatagramSize :: nat
  HandleTimeout :: int
  BytesToMessage :: "byte list \<Rightarrow> 'msg"
  UDPAddrToAddressPort :: "UDPAddr \<Rightarrow> 'ap"

text \<open>
  The \<open>Handler\<close> interface: \<open>Handle(ctx, responseWriter, msg, addressPort)\<close> returns an
  error or \<open>nil\<close>; the handler may keep a state of its own, of type \<open>'h\<close>.
\<close>

type_synonym ('h, 'msg, 'ap) Handler =
  "'h \<Rightarrow> ctx \<Rightarrow> ResponseWriter \<Rightarrow> 'msg \<Rightarrow> 'ap \<Rightarrow> error option \<times> 'h"

text \<open>
  The calls a function of the package makes, in program order. \<open>ERead n a e b\<close> is one
  completed \<open>ReadFromUDP\<close> with its three results and the buffer as the read left it.
\<close>

datatype ('msg, 'ap) effect =
    EMake nat
  | ENewTimer int
  | ERead nat "UDPAddr option" "error option" "byte list"
  | EReset int
  | ELog string
  | EHandle ctx ResponseWriter 'msg 'ap
  | ECancelTimeout
  | EGetBufferPool
  | EPoolGet
  | EPoolPut "byte list"

text \<open>A call either returns a value or panics.\<close>

datatype 'a res = Ret 'a | Panic

section \<open>The read and dispatch loop\<close>

text \<open>\<open>make([]byte, n)\<close>: \<open>n\<close> zero bytes.\<close>

definition make_bytes :: "nat \<Rightarrow> byte list" where
  "make_bytes n = replicate n 0"

text \<open>
  What one blocked \<open>ReadFromUDP\<close> completes with: a datagram from a sender, or a failure of
  the socket.
\<close>

datatype incoming = Datagram "byte list" UDPAddr | ReadFailure error

text \<open>
  \<open>connection.ReadFromUDP(buf)\<close> of package \<open>net\<close>: a datagram is copied into the front of
  \<open>buf\<close>, cut to the length of \<open>buf\<close>, and the call returns the number of bytes copied and
  the sender's address; a failure returns the error and no address. The result is
  \<open>((n, sourceAddr, err), buf)\<close> with the buffer as the call left it.
\<close>

fun ReadFromUDP ::
  "incoming \<Rightarrow> byte list \<Rightarrow> (nat \<times> UDPAddr option \<times> error option) \<times> byte list" where
  "ReadFromUDP (Datagram d a) buf =
     ((min (length d) (length buf), Some a, None),
      take (length buf) d @ drop (length d) buf)"
| "ReadFromUDP (ReadFailure e) buf = ((0, None, Some e), buf)"

text \<open>
  \<open>doHandle\<close>. The result is what the call returns (or a panic, when \<open>*sourceAddr\<close>
  dereferences \<open>nil\<close>), the calls it made, and the handler's state afterwards. The deferred
  \<open>cancelTimeout\<close> runs on every way out once it is registered. The goroutine that waits
  for \<open>done\<close> makes no call of its own before \<open>done\<close> fires.
\<close>

definition doHandle ::
  "('msg, 'ap) pkg \<Rightarrow> ('h, 'msg, 'ap) Handler \<Rightarrow> byte list \<Rightarrow> UDPConn \<Rightarrow> UDPAddr option \<Rightarrow> 'h
     \<Rightarrow> error option res \<times> ('msg, 'ap) effect list \<times> 'h" where
  "doHandle P handler buf connection sourceAddr h =
     (if length buf = 0 then (Ret None, [], h)
      else
        let ctx0 = WithCancel Background;
            ctx1 = WithTimeout ctx0 (HandleTimeout P);
            msg = BytesToMessage P buf;
            responseWriter = NewConnectionWriter connection sourceAddr
        in case sourceAddr of
             None \<Rightarrow> (Panic, [ECancelTimeout], h)
           | Some a \<Rightarrow>
               (case handler h ctx1 responseWriter msg (UDPAddrToAddressPort P a) of
                  (err, h') \<Rightarrow>
                    (Ret err,
                     [EHandle ctx1 responseWriter msg (UDPAddrToAddressPort P a), ECancelTimeout],
                     h')))"




text \<open>
  One pass of the loop of \<open>Serve\<close> is driven by what the environment does during it: what
  the blocked read completes with, whether the \<open>select\<close> finds \<open>done\<close> ready, and what
  \<open>timer.Reset\<close> returns (\<open>True\<close> while the timer had not yet expired), which is only asked
  for when \<open>timeout > 0\<close>.
\<close>

record step =
  arrival :: incoming
  done_fired :: bool
  timer_active :: bool

text \<open>
  How a run ends: \<open>Serve\<close> returns an error or \<open>nil\<close>, or it panics, or it is still blocked
  in \<open>ReadFromUDP\<close> because the environment has nothing more to deliver.
\<close>

datatype outcome = Returned "error option" | Panicked | Blocked

type_synonym ('h, 'msg, 'ap) run =
  "outcome \<times> ('msg, 'ap) effect list \<times> 'h \<times> byte list"

text \<open>Calls made before a run come first in its list of calls.\<close>

fun emit :: "('msg, 'ap) effect list \<Rightarrow> ('h, 'msg, 'ap) run \<Rightarrow> ('h, 'msg, 'ap) run" where
  "emit es (out, es', h, buf) = (out, es @ es', h, buf)"

text \<open>
  The \<open>for\<close> loop of \<open>Serve\<close>, one equation per pass. \<open>buf[:n]\<close> is \<open>take n buf\<close>: the
  count returned by \<open>ReadFromUDP\<close> never exceeds the length of the buffer.
\<close>

fun Serve_loop ::
  "('msg, 'ap) pkg \<Rightarrow> ('h, 'msg, 'ap) Handler \<Rightarrow> UDPConn \<Rightarrow> int \<Rightarrow> step list \<Rightarrow> byte list \<Rightarrow> 'h
     \<Rightarrow> ('h, 'msg, 'ap) run" where
  "Serve_loop P handler connection timeout [] buf h = (Blocked, [], h, buf)"
| "Serve_loop P handler connection timeout (st # rest) buf h =
     (case ReadFromUDP (arrival st) buf of
        ((n, sourceAddr, err), buf') \<Rightarrow>
          if done_fired st then (Returned None, [ERead n sourceAddr err buf'], h, buf')
          else if timeout > 0 \<and> \<not> timer_active st then
            (Returned None,
             [ERead n sourceAddr err buf', EReset timeout,
              ELog ''DEBUG: Stop Serve after timeout.''], h, buf')
          else
            emit (ERead n sourceAddr err buf' # (if timeout > 0 then [EReset timeout] else []))
              (case err of
                 Some e \<Rightarrow> (Returned (Some e), [], h, buf')
               | None \<Rightarrow>
                   (case doHandle P handler (take n buf') connection sourceAddr h of
                      (Panic, es, h') \<Rightarrow> (Panicked, es, h', buf')
                    | (Ret (Some e), es, h') \<Rightarrow> (Returned (Some e), es, h', buf')
                    | (Ret None, es, h') \<Rightarrow>
                        emit es (Serve_loop P handler connection timeout rest buf' h'))))"

text \<open>
  \<open>Serve\<close>: the buffer is made, the timer is armed when \<open>timeout > 0\<close>, and the loop runs.
  The goroutine that closes the connection when the timer fires acts through the
  environment: reads fail and \<open>timer.Reset\<close> returns \<open>False\<close>.
\<close>

definition Serve ::
  "('msg, 'ap) pkg \<Rightarrow> ('h, 'msg, 'ap) Handler \<Rightarrow> UDPConn \<Rightarrow> int \<Rightarrow> step list \<Rightarrow> 'h
     \<Rightarrow> ('h, 'msg, 'ap) run" where
  "Serve P handler connection timeout script h =
     emit (EMake (MaxDatagramSize P) # (if timeout > 0 then [ENewTimer timeout] else []))
       (Serve_loop P handler connection timeout script (make_bytes (MaxDatagramSize P)) h)"

text \<open>The calls of a run, and the calls of \<open>Handle\<close> among them.\<close>

definition effects_of :: "('h, 'msg, 'ap) run \<Rightarrow> ('msg, 'ap) effect list" where
  "effects_of r = fst (snd r)"

fun is_handle :: "('msg, 'ap) effect \<Rightarrow> bool" where
  "is_handle (EHandle _ _ _ _) = True"
| "is_handle _ = False"

text \<open>
  The specification's reading of the dispatch, read by read: every completed read of a
  datagram is followed by one call of \<open>Handle\<close> on the first \<open>n\<close> bytes of the buffer.
\<close>

fun spec_dispatch :: "('msg, 'ap) pkg \<Rightarrow> UDPConn \<Rightarrow> ('msg, 'ap) effect \<Rightarrow> ('msg, 'ap) effect list" where
  "spec_dispatch P c (ERead n (Some a) None b) =
     [EHandle (WithTimeout (WithCancel Background) (HandleTimeout P))
        (NewConnectionWriter c (Some a)) (BytesToMessage P (take n b)) (UDPAddrToAddressPort P a)]"
| "spec_dispatch P c _ = []"

text \<open>The same reading with the empty datagrams left out.\<close>

fun nonempty_dispatch :: "('msg, 'ap) pkg \<Rightarrow> UDPConn \<Rightarrow> ('msg, 'ap) effect \<Rightarrow> ('msg, 'ap) effect list" where
  "nonempty_dispatch P c (ERead n a e b) = (if n = 0 then [] else spec_dispatch P c (ERead n a e b))"
| "nonempty_dispatch P c _ = []"

section \<open>The buffer pool\<close>

text \<open>
  \<open>bufferPool\<close> wraps a \<open>sync.Pool\<close> whose \<open>New\<close> is \<open>newBuffer\<close>: the field holds the
  buffers the pool currently keeps. Buffers are byte lists; a buffer made by
  \<open>make([]byte, n)\<close> has length and capacity \<open>n\<close>, and the length of the list stands for both.
\<close>

record bufferPool =
  pool :: "byte list list"

text \<open>The package variables \<open>singletonBufferPool\<close> (a pointer, \<open>nil\<close> at start) and \<open>once\<close>.\<close>

record globals =
  singletonBufferPool :: "bufferPool option"
  once :: bool

definition init_globals :: globals where
  "init_globals = \<lparr>singletonBufferPool = None, once = False\<rparr>"

text \<open>
  \<open>GetBufferPool\<close>: \<open>once.Do\<close> runs its function on the first call only. The pointer
  returned is the variable \<open>singletonBufferPool\<close> of the state returned.
\<close>

definition GetBufferPool :: "globals \<Rightarrow> globals \<times> ('msg, 'ap) effect list" where
  "GetBufferPool g =
     ((if once g then g else g\<lparr>singletonBufferPool := Some \<lparr>pool = []\<rparr>, once := True\<rparr>),
      [EGetBufferPool])"

definition newBuffer :: "nat \<Rightarrow> byte list \<times> ('msg, 'ap) effect list" where
  "newBuffer N = (make_bytes N, [EMake N])"

text \<open>\<open>Put\<close>: the buffer goes into the \<open>sync.Pool\<close> as it is.\<close>

definition Put :: "bufferPool \<Rightarrow> byte list \<Rightarrow> bufferPool \<times> ('msg, 'ap) effect list" where
  "Put bp buffer = (bp\<lparr>pool := buffer # pool bp\<rparr>, [EPoolPut buffer])"

text \<open>
  \<open>Get\<close>. \<open>sync.Pool.Get\<close> hands out any one of the buffers it keeps and removes it, or
  treats the pool as empty and calls \<open>New\<close>; which of the two is the runtime's choice
  \<open>pick\<close>: \<open>Some i\<close> with \<open>i\<close> an index of a kept buffer hands that buffer out, anything
  else calls \<open>newBuffer\<close>. The type assertion \<open>.([]byte)\<close> holds of both.
\<close>

definition Get ::
  "nat \<Rightarrow> bufferPool \<Rightarrow> nat option \<Rightarrow> byte list \<times> bufferPool \<times> ('msg, 'ap) effect list" where
  "Get N bp pick =
     (case pick of
        Some i \<Rightarrow>
          if i < length (pool bp)
          then (pool bp ! i, bp\<lparr>pool := take i (pool bp) @ drop (Suc i) (pool bp)\<rparr>, [EPoolGet])
          else (fst (newBuffer N :: byte list \<times> ('msg, 'ap) effect list), bp,
                EPoolGet # snd (newBuffer N))
      | None \<Rightarrow>
          (fst (newBuffer N :: byte list \<times> ('msg, 'ap) effect list), bp,
           EPoolGet # snd (newBuffer N)))"

text \<open>
  A client of the pool makes calls \<open>GetBufferPool().Put(b)\<close> and \<open>GetBufferPool().Get()\<close>.
  \<open>pool_client\<close> runs a list of them and returns the buffers the calls of \<open>Get\<close> returned,
  in order, with the calls made and the package variables afterwards; a method called
  through a \<open>nil\<close> pointer panics.
\<close>

datatype pool_op = OpPut "byte list" | OpGet "nat option"

fun pool_client ::
  "nat \<Rightarrow> pool_op list \<Rightarrow> globals \<Rightarrow> byte list list res \<times> ('msg, 'ap) effect list \<times> globals" where
  "pool_client N [] g = (Ret [], [], g)"
| "pool_client N (x # xs) g =
     (case GetBufferPool g of
        (g1, es1) \<Rightarrow>
          (case singletonBufferPool g1 of
             None \<Rightarrow> (Panic, es1, g1)
           | Some bp \<Rightarrow>
               (case x of
                  OpPut b \<Rightarrow>
                    (case Put bp b of
                       (bp', es2) \<Rightarrow>
                         (case pool_client N xs (g1\<lparr>singletonBufferPool := Some bp'\<rparr>) of
                            (r, es3, g') \<Rightarrow> (r, es1 @ es2 @ es3, g')))
                | OpGet pick \<Rightarrow>
                    (case Get N bp pick of
                       (b, bp', es2) \<Rightarrow>
                         (case pool_client N xs (g1\<lparr>singletonBufferPool := Some bp'\<rparr>) of
                            (Ret bs, es3, g') \<Rightarrow> (Ret (b # bs), es1 @ es2 @ es3, g')
                          | (Panic, es3, g') \<Rightarrow> (Panic, es1 @ es2 @ es3, g'))))))"

fun is_make :: "('msg, 'ap) effect \<Rightarrow> bool" where
  "is_make (EMake _) = True"
| "is_make _ = False"

fun is_pool_call :: "('msg, 'ap) effect \<Rightarrow> bool" where
  "is_pool_call EGetBufferPool = True"
| "is_pool_call EPoolGet = True"
| "is_pool_call (EPoolPut _) = True"
| "is_pool_call _ = False"

text \<open>
  The package variables are in order when \<open>once\<close> having run means the pool exists, and
  every buffer the pool keeps has length \<open>N\<close>.
\<close>

definition pool_inv :: "nat \<Rightarrow> globals \<Rightarrow> bool" where
  "pool_inv N g \<longleftrightarrow>
     (once g \<longrightarrow> singletonBufferPool g \<noteq> None) \<and>
     (\<forall>bp. singletonBufferPool g = Some bp \<longrightarrow> (\<forall>b \<in> set (pool bp). length b = N))"

section \<open>The socket factory\<close>

text \<open>
  The calls into package \<open>net\<close>: each either fails with an error or succeeds. The network
  argument is always \<open>"udp"\<close>. The two buffer calls answer for a connection and a size.
\<close>

record net =
  ResolveUDPAddr :: "string \<Rightarrow> error + UDPAddr"
  DialUDP :: "UDPAddr option \<Rightarrow> UDPAddr \<Rightarrow> error + UDPConn"
  ListenUDP :: "UDPAddr \<Rightarrow> error + UDPConn"
  SetWriteBuffer :: "UDPConn \<Rightarrow> nat \<Rightarrow> error option"
  SetReadBuffer :: "UDPConn \<Rightarrow> nat \<Rightarrow> error option"

text \<open>
  \<open>setSRCSConnectionOptions\<close>: the error returned, and the connection as the calls left
  it (a buffer call that succeeds sets the size, one that fails changes nothing).
\<close>

definition setSRCSConnectionOptions :: "net \<Rightarrow> nat \<Rightarrow> UDPConn \<Rightarrow> error option \<times> UDPConn" where
  "setSRCSConnectionOptions E N connection =
     (case SetWriteBuffer E connection N of
        Some err \<Rightarrow> (Some err, connection)
      | None \<Rightarrow>
          (let c1 = connection\<lparr>sndbuf := N\<rparr>
           in case SetReadBuffer E c1 N of
                Some err \<Rightarrow> (Some err, c1)
              | None \<Rightarrow> (None, c1\<lparr>rcvbuf := N\<rparr>)))"

text \<open>\<open>Dial\<close> and \<open>Listen\<close> return the pair \<open>(connection, err)\<close> of the Go functions.\<close>

definition Dial :: "net \<Rightarrow> nat \<Rightarrow> string \<Rightarrow> UDPConn option \<times> error option" where
  "Dial E N addr =
     (case ResolveUDPAddr E addr of
        Inl err \<Rightarrow> (None, Some err)
      | Inr laddr \<Rightarrow>
          (case DialUDP E None laddr of
             Inl err \<Rightarrow> (None, Some err)
           | Inr connection \<Rightarrow>
               (case setSRCSConnectionOptions E N connection of
                  (Some err, _) \<Rightarrow> (None, Some err)
                | (None, connection') \<Rightarrow> (Some connection', None))))"

definition Listen :: "net \<Rightarrow> nat \<Rightarrow> string \<Rightarrow> UDPConn option \<times> error option" where
  "Listen E N addr =
     (case ResolveUDPAddr E addr of
        Inl err \<Rightarrow> (None, Some err)
      | Inr laddr \<Rightarrow>
          (case ListenUDP E laddr of
             Inl err \<Rightarrow> (None, Some err)
           | Inr connection \<Rightarrow>
               (case setSRCSConnectionOptions E N connection of
                  (Some err, _) \<Rightarrow> (None, Some err)
                | (None, connection') \<Rightarrow> (Some connection', None))))"

section \<open>Concrete inputs\<close>

text \<open>
  A package with four-byte buffers whose two conversions are the identity, a listening
  connection, a sender, a handler that counts its calls and one that fails, and passes of
  the loop in which a datagram arrives from the sender while \<open>done\<close> has not fired and the
  timer has not expired.
\<close>

definition demo_pkg :: "(byte list, UDPAddr) pkg" where
  "demo_pkg = \<lparr>MaxDatagramSize = 4, HandleTimeout = 1000,
               BytesToMessage = (\<lambda>b. b), UDPAddrToAddressPort = (\<lambda>a. a)\<rparr>"

definition demo_conn :: UDPConn where
  "demo_conn = \<lparr>fd = 3, remote_addr = None, local_addr = Some (UDPAddr [127, 0, 0, 1] 27015),
                sndbuf = 4, rcvbuf = 4\<rparr>"

definition demo_peer :: UDPAddr where
  "demo_peer = UDPAddr [10, 0, 0, 7] 5000"

definition counting_handler :: "(nat, byte list, UDPAddr) Handler" where
  "counting_handler h c w msg ap = (None, Suc h)"

definition failing_handler :: "(nat, byte list, UDPAddr) Handler" where
  "failing_handler h c w msg ap = (Some (Error ''synthetic''), Suc h)"

definition data_step :: "byte list \<Rightarrow> step" where
  "data_step d = \<lparr>arrival = Datagram d demo_peer, done_fired = False, timer_active = True\<rparr>"

text \<open>
  An operating system that resolves \<open>host:port\<close> for four ports and nothing else, refuses
  to open a socket on port 1, to size the write buffer on port 2 and to size the read
  buffer on port 3.
\<close>

definition demo_port :: "UDPConn \<Rightarrow> int" where
  "demo_port c =
     (case remote_addr c of
        Some a \<Rightarrow> Port a
      | None \<Rightarrow> (case local_addr c of Some a \<Rightarrow> Port a | None \<Rightarrow> 0))"

definition demo_net :: net where
  "demo_net =
     \<lparr>ResolveUDPAddr =
        (\<lambda>s. if s = ''h:1'' then Inr (UDPAddr [10, 0, 0, 1] 1)
             else if s = ''h:2'' then Inr (UDPAddr [10, 0, 0, 1] 2)
             else if s = ''h:3'' then Inr (UDPAddr [10, 0, 0, 1] 3)
             else if s = ''h:27015'' then Inr (UDPAddr [10, 0, 0, 1] 27015)
             else Inl (Error ''missing port in address'')),
      DialUDP =
        (\<lambda>l r. if Port r = 1 then Inl (Error ''connect: network is unreachable'')
               else Inr \<lparr>fd = 3, remote_addr = Some r, local_addr = l,
                         sndbuf = 212992, rcvbuf = 212992\<rparr>),
      ListenUDP =
        (\<lambda>a. if Port a = 1 then Inl (Error ''bind: permission denied'')
             else Inr \<lparr>fd = 4, remote_addr = None, local_addr = Some a,
                       sndbuf = 212992, rcvbuf = 212992\<rparr>),
      SetWriteBuffer =
        (\<lambda>c n. if demo_port c = 2 then Some (Error ''setsockopt: SO_SNDBUF'') else None),
      SetReadBuffer =
        (\<lambda>c n. if demo_port c = 3 then Some (Error ''setsockopt: SO_RCVBUF'') else None)\<rparr>"

section \<open>Facts about the loop\<close>

lemma emit_emit: "emit es (emit es' r) = emit (es @ es') r"
  by (cases r) simp

lemma emit_Nil: "emit [] r = r"
  by (cases r) simp

lemma effects_of_emit: "effects_of (emit es r) = es @ effects_of r"
  by (cases r) (simp add: effects_of_def)

lemma take_min_length: "take (min (length d) n) d = take n d"
  by (simp add: min_def)

lemma take_nonempty_min: "take n d \<noteq> [] \<Longrightarrow> min (length d) n \<noteq> 0"
  by (cases d) auto

lemma take_empty_min: "take n d = [] \<Longrightarrow> min (length d) n = 0"
  by (cases d) auto

lemma take_empty_buffer:
  "take (length buf) d = [] \<Longrightarrow> take (length buf) d @ drop (length d) buf = buf"
  by (cases d) auto

lemma ReadFromUDP_length:
  "ReadFromUDP x buf = (r, buf') \<Longrightarrow> length buf' = length buf"
  by (cases x) auto

text \<open>
  A run that is blocked after the passes \<open>pre\<close> goes on with whatever comes later, from
  the buffer and the handler state it was blocked with.
\<close>

lemma Serve_loop_append:
  "Serve_loop P H c t pre buf h = (Blocked, es, h', buf') \<Longrightarrow>
   Serve_loop P H c t (pre @ later) buf h = emit es (Serve_loop P H c t later buf' h')"
proof (induction pre arbitrary: buf h es)
  case Nil
  then show ?case by (simp add: emit_Nil)
next
  case (Cons st pre)
  obtain n sa err b where rd: "ReadFromUDP (arrival st) buf = ((n, sa, err), b)"
    by (cases "ReadFromUDP (arrival st) buf") auto
  from Cons.prems rd have nd: "\<not> done_fired st" and tm: "\<not> (t > 0 \<and> \<not> timer_active st)"
    by (auto split: if_splits)
  from Cons.prems rd nd tm have err: "err = None"
    by (auto split: option.splits)
  obtain r es1 h1 where dh: "doHandle P H (take n b) c sa h = (r, es1, h1)"
    by (cases "doHandle P H (take n b) c sa h") auto
  from Cons.prems rd nd tm err dh have r: "r = Ret None"
    by (cases r) (auto split: option.splits)
  obtain o2 es2 h2 b2 where rec: "Serve_loop P H c t pre b h1 = (o2, es2, h2, b2)"
    by (cases "Serve_loop P H c t pre b h1") auto
  from Cons.prems rd nd tm err dh r rec
  have o2: "o2 = Blocked" and h2: "h2 = h'" and b2: "b2 = buf'"
    and es: "es = ERead n sa err b # (if t > 0 then [EReset t] else []) @ es1 @ es2"
    by (auto split: if_splits)
  from Cons.IH[OF rec[unfolded o2 h2 b2]]
  have "Serve_loop P H c t (pre @ later) b h1 = emit es2 (Serve_loop P H c t later buf' h')" .
  with rd nd tm err dh r es show ?case
    by (cases "Serve_loop P H c t later buf' h'") auto
qed

text \<open>The buffer keeps its length through the loop.\<close>

lemma Serve_loop_length:
  "Serve_loop P H c t script buf h = (out, es, h', buf') \<Longrightarrow> length buf' = length buf"
proof (induction script arbitrary: buf h es out h' buf')
  case Nil
  then show ?case by simp
next
  case (Cons st script)
  obtain n sa err b where rd: "ReadFromUDP (arrival st) buf = ((n, sa, err), b)"
    by (cases "ReadFromUDP (arrival st) buf") auto
  then have lb: "length b = length buf"
    by (rule ReadFromUDP_length)
  obtain r es1 h1 where dh: "doHandle P H (take n b) c sa h = (r, es1, h1)"
    by (cases "doHandle P H (take n b) c sa h") auto
  obtain o2 es2 h2 b2 where rec: "Serve_loop P H c t script b h1 = (o2, es2, h2, b2)"
    by (cases "Serve_loop P H c t script b h1") auto
  from Cons.IH[OF rec] have "length b2 = length b" .
  with Cons.prems rd lb dh rec show ?case
    by (auto split: if_splits option.splits res.splits)
qed

lemma Serve_append:
  assumes "Serve P H c t pre h = (Blocked, es, h', buf')"
  shows "Serve P H c t (pre @ later) h = emit es (Serve_loop P H c t later buf' h')"
    and "length buf' = MaxDatagramSize P"
proof -
  let ?pre = "EMake (MaxDatagramSize P) # (if t > 0 then [ENewTimer t] else [])"
  obtain o1 es1 h1 b1 where
    lp: "Serve_loop P H c t pre (make_bytes (MaxDatagramSize P)) h = (o1, es1, h1, b1)"
    by (cases "Serve_loop P H c t pre (make_bytes (MaxDatagramSize P)) h") auto
  with assms have eq: "o1 = Blocked" "es = ?pre @ es1" "h1 = h'" "b1 = buf'"
    by (auto simp: Serve_def)
  from Serve_loop_append[OF lp[unfolded eq(1,3,4)]]
  show "Serve P H c t (pre @ later) h = emit es (Serve_loop P H c t later buf' h')"
    by (simp add: Serve_def eq(2) emit_emit)
  from Serve_loop_length[OF lp] eq show "length buf' = MaxDatagramSize P"
    by (simp add: make_bytes_def)
qed

text \<open>One pass in which nothing stops the loop, and one in which the handler fails.\<close>

lemma Serve_loop_continue:
  assumes "\<not> done_fired st" and "t > 0 \<longrightarrow> timer_active st"
    and "ReadFromUDP (arrival st) buf = ((n, sa, None), b)"
    and "doHandle P H (take n b) c sa h = (Ret None, es1, h1)"
  shows "Serve_loop P H c t (st # rest) buf h =
           emit (ERead n sa None b # (if t > 0 then [EReset t] else []) @ es1)
             (Serve_loop P H c t rest b h1)"
proof (cases "t > 0")
  case True
  with assms(2) have "timer_active st" by simp
  with True assms(1,3,4) show ?thesis
    by (simp add: emit_emit del: emit.simps)
next
  case False
  with assms(1,3,4) show ?thesis
    by (simp add: emit_emit del: emit.simps)
qed

lemma Serve_loop_handler_error:
  assumes "\<not> done_fired st" and "t > 0 \<longrightarrow> timer_active st"
    and "ReadFromUDP (arrival st) buf = ((n, sa, None), b)"
    and "doHandle P H (take n b) c sa h = (Ret (Some e), es1, h1)"
  shows "Serve_loop P H c t (st # rest) buf h =
           (Returned (Some e), ERead n sa None b # (if t > 0 then [EReset t] else []) @ es1, h1, b)"
proof (cases "t > 0")
  case True
  with assms(2) have "timer_active st" by simp
  with True assms(1,3,4) show ?thesis
    by simp
next
  case False
  with assms(1,3,4) show ?thesis
    by simp
qed

text \<open>What one call of \<open>doHandle\<close> adds to the calls of \<open>Handle\<close>.\<close>

lemma doHandle_dispatch:
  assumes "doHandle P H bs c sa h = (r, es, h')" and "take (length bs) b = bs"
  shows "filter is_handle es = nonempty_dispatch P c (ERead (length bs) sa None b)"
    and "concat (map (nonempty_dispatch P c) es) = []"
proof -
  have "filter is_handle es = nonempty_dispatch P c (ERead (length bs) sa None b)
          \<and> concat (map (nonempty_dispatch P c) es) = []"
  proof (cases "bs = []")
    case True
    with assms(1) show ?thesis by (simp add: doHandle_def)
  next
    case False
    show ?thesis
    proof (cases sa)
      case None
      with False assms(1) show ?thesis by (auto simp: doHandle_def Let_def)
    next
      case (Some a)
      with False assms show ?thesis
        by (auto simp: doHandle_def Let_def split: prod.splits)
    qed
  qed
  then show "filter is_handle es = nonempty_dispatch P c (ERead (length bs) sa None b)"
    and "concat (map (nonempty_dispatch P c) es) = []"
    by simp_all
qed

lemma Serve_loop_calls:
  assumes "\<forall>st \<in> set script. \<not> done_fired st \<and> (t > 0 \<longrightarrow> timer_active st)
             \<and> (\<exists>d a. arrival st = Datagram d a)"
  shows "filter is_handle (effects_of (Serve_loop P H c t script buf h)) =
         concat (map (nonempty_dispatch P c) (effects_of (Serve_loop P H c t script buf h)))"
  using assms
proof (induction script arbitrary: buf h)
  case Nil
  then show ?case by (simp add: effects_of_def)
next
  case (Cons st script)
  from Cons.prems obtain d a where ar: "arrival st = Datagram d a"
    and nd: "\<not> done_fired st" and tm: "t > 0 \<longrightarrow> timer_active st"
    by auto
  let ?b = "take (length buf) d @ drop (length d) buf"
  let ?n = "min (length d) (length buf)"
  have rd: "ReadFromUDP (arrival st) buf = ((?n, Some a, None), ?b)"
    by (simp add: ar)
  from Cons.prems have rest: "\<forall>st \<in> set script. \<not> done_fired st \<and> (t > 0 \<longrightarrow> timer_active st)
             \<and> (\<exists>d a. arrival st = Datagram d a)"
    by simp
  note IH = Cons.IH[OF rest]
  obtain r es1 h1 where dh: "doHandle P H (take ?n ?b) c (Some a) h = (r, es1, h1)"
    by (cases "doHandle P H (take ?n ?b) c (Some a) h") auto
  have "length (take ?n ?b) = ?n" "take (length (take ?n ?b)) ?b = take ?n ?b"
    by simp_all
  with doHandle_dispatch[OF dh, of ?b]
  have d1: "filter is_handle es1 = nonempty_dispatch P c (ERead ?n (Some a) None ?b)"
    and d2: "concat (map (nonempty_dispatch P c) es1) = []"
    by simp_all
  from dh have "r \<noteq> Panic"
    by (auto simp: doHandle_def Let_def split: if_splits prod.splits)
  then consider "r = Ret None" | e where "r = Ret (Some e)"
    by (cases r) auto
  then show ?case
  proof cases
    case 1
    have eq: "effects_of (Serve_loop P H c t (st # script) buf h) =
                (ERead ?n (Some a) None ?b # (if t > 0 then [EReset t] else []) @ es1)
                  @ effects_of (Serve_loop P H c t script ?b h1)"
      by (simp only: Serve_loop_continue[OF nd tm rd dh[unfolded 1]] effects_of_emit)
    show ?thesis
      unfolding eq using IH[of ?b h1] d1 d2 by (simp del: Serve_loop.simps)
  next
    case 2
    have eq: "effects_of (Serve_loop P H c t (st # script) buf h) =
                ERead ?n (Some a) None ?b # (if t > 0 then [EReset t] else []) @ es1"
      by (simp only: Serve_loop_handler_error[OF nd tm rd dh[unfolded 2]] effects_of_def
            fst_conv snd_conv)
    show ?thesis
      unfolding eq using d1 d2 by simp
  qed
qed

text \<open>The loop itself never makes a buffer and never calls the pool.\<close>

lemma Serve_loop_no_buffer_source:
  "filter (\<lambda>e. is_pool_call e \<or> is_make e) (effects_of (Serve_loop P H c t script buf h)) = []"
proof (induction script arbitrary: buf h)
  case Nil
  show ?case by (simp add: effects_of_def)
next
  case (Cons st script)
  obtain n sa err b where rd: "ReadFromUDP (arrival st) buf = ((n, sa, err), b)"
    by (cases "ReadFromUDP (arrival st) buf") auto
  obtain r es1 h1 where dh: "doHandle P H (take n b) c sa h = (r, es1, h1)"
    by (cases "doHandle P H (take n b) c sa h") auto
  then have es1: "filter (\<lambda>e. is_pool_call e \<or> is_make e) es1 = []"
    by (auto simp: doHandle_def Let_def split: if_splits option.splits prod.splits)
  from Cons.IH[of b h1] rd dh es1 show ?case
    by (cases "Serve_loop P H c t script b h1")
       (auto simp: effects_of_def split: option.splits res.splits)
qed

lemmas demo_defs = Serve_def demo_pkg_def data_step_def doHandle_def counting_handler_def
  failing_handler_def make_bytes_def demo_peer_def effects_of_def

section \<open>The claims about the loop\<close>

text \<open>
  Claim C1, as the code has it. In a run in which, at every pass, \<open>done\<close> has not fired,
  the timer has not expired and the read delivered a datagram, the calls of \<open>Handle\<close> are,
  in order, one for each read that returned at least one byte, and the message of each is
  \<open>BytesToMessage\<close> of the first \<open>n\<close> bytes of the buffer, \<open>n\<close> being the count that read
  returned. A read of zero bytes has no call of \<open>Handle\<close>.
\<close>

theorem Serve_dispatches_nonempty_in_order:
  assumes "\<forall>st \<in> set script. \<not> done_fired st \<and> (t > 0 \<longrightarrow> timer_active st)
             \<and> (\<exists>d a. arrival st = Datagram d a)"
  shows "filter is_handle (effects_of (Serve P H c t script h)) =
         concat (map (nonempty_dispatch P c) (effects_of (Serve P H c t script h)))"
  using Serve_loop_calls[OF assms, of P H c "make_bytes (MaxDatagramSize P)" h]
  by (simp add: Serve_def effects_of_emit)

theorem Serve_dispatches_nonempty_in_order_witness:
  "\<not> done_fired (data_step [1, 2]) \<and> arrival (data_step [1, 2]) = Datagram [1, 2] demo_peer
   \<and> \<not> done_fired (data_step []) \<and> arrival (data_step []) = Datagram [] demo_peer
   \<and> \<not> done_fired (data_step [1, 2, 3, 4, 5])
   \<and> arrival (data_step [1, 2, 3, 4, 5]) = Datagram [1, 2, 3, 4, 5] demo_peer
   \<and> filter is_handle (effects_of (Serve demo_pkg counting_handler demo_conn 0
         [data_step [1, 2], data_step [], data_step [1, 2, 3, 4, 5]] 0))
     = [EHandle (WithTimeout (WithCancel Background) 1000)
          (NewConnectionWriter demo_conn (Some demo_peer)) [1, 2] demo_peer,
        EHandle (WithTimeout (WithCancel Background) 1000)
          (NewConnectionWriter demo_conn (Some demo_peer)) [1, 2, 3, 4] demo_peer]
   \<and> concat (map (nonempty_dispatch demo_pkg demo_conn)
        (effects_of (Serve demo_pkg counting_handler demo_conn 0
           [data_step [1, 2], data_step [], data_step [1, 2, 3, 4, 5]] 0)))
     = [EHandle (WithTimeout (WithCancel Background) 1000)
          (NewConnectionWriter demo_conn (Some demo_peer)) [1, 2] demo_peer,
        EHandle (WithTimeout (WithCancel Background) 1000)
          (NewConnectionWriter demo_conn (Some demo_peer)) [1, 2, 3, 4] demo_peer]"
proof -
  have h: "\<forall>st \<in> set [data_step [1, 2], data_step [], data_step [1, 2, 3, 4, 5]].
      \<not> done_fired st \<and> ((0::int) < 0 \<longrightarrow> timer_active st) \<and> (\<exists>d a. arrival st = Datagram d a)"
    by (simp add: data_step_def)
  have c: "filter is_handle (effects_of (Serve demo_pkg counting_handler demo_conn 0
         [data_step [1, 2], data_step [], data_step [1, 2, 3, 4, 5]] 0))
     = [EHandle (WithTimeout (WithCancel Background) 1000)
          (NewConnectionWriter demo_conn (Some demo_peer)) [1, 2] demo_peer,
        EHandle (WithTimeout (WithCancel Background) 1000)
          (NewConnectionWriter demo_conn (Some demo_peer)) [1, 2, 3, 4] demo_peer]"
    by (simp add: demo_defs eval_nat_numeral)
  from Serve_dispatches_nonempty_in_order[OF h, of demo_pkg counting_handler demo_conn 0] c
  show ?thesis by (simp add: data_step_def)
qed

text \<open>
  Claim C1 as it is stated fails: one empty datagram is read while \<open>done\<close> has not fired,
  no timer is armed and the read succeeded, and \<open>Handle\<close> is not called for it.
\<close>

theorem Serve_once_per_datagram_counterexample:
  "\<not> done_fired (data_step []) \<and> timer_active (data_step [])
   \<and> arrival (data_step []) = Datagram [] demo_peer
   \<and> effects_of (Serve demo_pkg counting_handler demo_conn 0 [data_step []] 0)
       = [EMake 4, ERead 0 (Some demo_peer) None [0, 0, 0, 0]]
   \<and> filter is_handle (effects_of (Serve demo_pkg counting_handler demo_conn 0 [data_step []] 0))
       \<noteq> concat (map (spec_dispatch demo_pkg demo_conn)
            (effects_of (Serve demo_pkg counting_handler demo_conn 0 [data_step []] 0)))"
  by (simp add: demo_defs eval_nat_numeral)

text \<open>
  Claim C2. When \<open>done\<close> has fired at the check that follows a read, \<open>Serve\<close> returns \<open>nil\<close>:
  whatever the read returned, an error included, the run ends with that read as its last
  call, \<open>Handle\<close> is not called and the handler's state is as it was.
\<close>

theorem Serve_done_returns_nil:
  assumes "Serve P H c t pre h = (Blocked, es, h', buf')"
    and "done_fired st"
    and "ReadFromUDP (arrival st) buf' = ((n, sa, err), b)"
  shows "Serve P H c t (pre @ st # rest) h = (Returned None, es @ [ERead n sa err b], h', b)"
  using assms(2,3) by (simp add: Serve_append(1)[OF assms(1)])

theorem Serve_done_returns_nil_witness:
  "Serve demo_pkg counting_handler demo_conn 0 [data_step [1, 2]] 0
     = (Blocked,
        [EMake 4, ERead 2 (Some demo_peer) None [1, 2, 0, 0],
         EHandle (WithTimeout (WithCancel Background) 1000)
           (NewConnectionWriter demo_conn (Some demo_peer)) [1, 2] demo_peer,
         ECancelTimeout], 1, [1, 2, 0, 0])
   \<and> done_fired \<lparr>arrival = ReadFailure (Error ''use of closed network connection''),
                  done_fired = True, timer_active = True\<rparr>
   \<and> Serve demo_pkg counting_handler demo_conn 0
        ([data_step [1, 2]]
           @ \<lparr>arrival = ReadFailure (Error ''use of closed network connection''),
               done_fired = True, timer_active = True\<rparr> # [data_step [9]]) 0
     = (Returned None,
        [EMake 4, ERead 2 (Some demo_peer) None [1, 2, 0, 0],
         EHandle (WithTimeout (WithCancel Background) 1000)
           (NewConnectionWriter demo_conn (Some demo_peer)) [1, 2] demo_peer,
         ECancelTimeout,
         ERead 0 None (Some (Error ''use of closed network connection'')) [1, 2, 0, 0]],
        1, [1, 2, 0, 0])"
proof -
  have h1: "Serve demo_pkg counting_handler demo_conn 0 [data_step [1, 2]] 0
     = (Blocked,
        [EMake 4, ERead 2 (Some demo_peer) None [1, 2, 0, 0],
         EHandle (WithTimeout (WithCancel Background) 1000)
           (NewConnectionWriter demo_conn (Some demo_peer)) [1, 2] demo_peer,
         ECancelTimeout], 1, [1, 2, 0, 0])"
    by (simp add: demo_defs eval_nat_numeral)
  have h2: "done_fired \<lparr>arrival = ReadFailure (Error ''use of closed network connection''),
                  done_fired = True, timer_active = True\<rparr>"
    by simp
  have h3: "ReadFromUDP
      (arrival \<lparr>arrival = ReadFailure (Error ''use of closed network connection''),
                 done_fired = True, timer_active = True\<rparr>) [1, 2, 0, 0]
      = ((0, None, Some (Error ''use of closed network connection'')), [1, 2, 0, 0])"
    by simp
  from Serve_done_returns_nil[OF h1 h2 h3, of "[data_step [9]]"] h1 h2
  show ?thesis by simp
qed

text \<open>
  Claim C3. With \<open>timeout > 0\<close>, when \<open>done\<close> has not fired and \<open>timer.Reset\<close> reports that
  the timer had expired, \<open>Serve\<close> logs and returns \<open>nil\<close>: whatever the read returned, an
  error included, \<open>Handle\<close> is not called and the handler's state is as it was.
\<close>

theorem Serve_idle_expiry_returns_nil:
  assumes "Serve P H c t pre h = (Blocked, es, h', buf')"
    and "t > 0" and "\<not> done_fired st" and "\<not> timer_active st"
    and "ReadFromUDP (arrival st) buf' = ((n, sa, err), b)"
  shows "Serve P H c t (pre @ st # rest) h =
           (Returned None,
            es @ [ERead n sa err b, EReset t, ELog ''DEBUG: Stop Serve after timeout.''], h', b)"
  using assms(2-) by (simp add: Serve_append(1)[OF assms(1)])

theorem Serve_idle_expiry_returns_nil_witness:
  "Serve demo_pkg counting_handler demo_conn 50 [data_step [1, 2]] 0
     = (Blocked,
        [EMake 4, ENewTimer 50, ERead 2 (Some demo_peer) None [1, 2, 0, 0], EReset 50,
         EHandle (WithTimeout (WithCancel Background) 1000)
           (NewConnectionWriter demo_conn (Some demo_peer)) [1, 2] demo_peer,
         ECancelTimeout], 1, [1, 2, 0, 0])
   \<and> (50::int) > 0
   \<and> \<not> done_fired \<lparr>arrival = ReadFailure (Error ''use of closed network connection''),
                    done_fired = False, timer_active = False\<rparr>
   \<and> \<not> timer_active \<lparr>arrival = ReadFailure (Error ''use of closed network connection''),
                      done_fired = False, timer_active = False\<rparr>
   \<and> Serve demo_pkg counting_handler demo_conn 50
        ([data_step [1, 2]]
           @ \<lparr>arrival = ReadFailure (Error ''use of closed network connection''),
               done_fired = False, timer_active = False\<rparr> # [data_step [9]]) 0
     = (Returned None,
        [EMake 4, ENewTimer 50, ERead 2 (Some demo_peer) None [1, 2, 0, 0], EReset 50,
         EHandle (WithTimeout (WithCancel Background) 1000)
           (NewConnectionWriter demo_conn (Some demo_peer)) [1, 2] demo_peer,
         ECancelTimeout,
         ERead 0 None (Some (Error ''use of closed network connection'')) [1, 2, 0, 0],
         EReset 50, ELog ''DEBUG: Stop Serve after timeout.''],
        1, [1, 2, 0, 0])"
proof -
  have h1: "Serve demo_pkg counting_handler demo_conn 50 [data_step [1, 2]] 0
     = (Blocked,
        [EMake 4, ENewTimer 50, ERead 2 (Some demo_peer) None [1, 2, 0, 0], EReset 50,
         EHandle (WithTimeout (WithCancel Background) 1000)
           (NewConnectionWriter demo_conn (Some demo_peer)) [1, 2] demo_peer,
         ECancelTimeout], 1, [1, 2, 0, 0])"
    by (simp add: demo_defs eval_nat_numeral)
  have h2: "(50::int) > 0"
    by simp
  have h3: "\<not> done_fired \<lparr>arrival = ReadFailure (Error ''use of closed network connection''),
                    done_fired = False, timer_active = False\<rparr>"
    by simp
  have h4: "\<not> timer_active \<lparr>arrival = ReadFailure (Error ''use of closed network connection''),
                      done_fired = False, timer_active = False\<rparr>"
    by simp
  have h5: "ReadFromUDP
      (arrival \<lparr>arrival = ReadFailure (Error ''use of closed network connection''),
                 done_fired = False, timer_active = False\<rparr>) [1, 2, 0, 0]
      = ((0, None, Some (Error ''use of closed network connection'')), [1, 2, 0, 0])"
    by simp
  from Serve_idle_expiry_returns_nil[OF h1 h2 h3 h4 h5, of "[data_step [9]]"] h1 h3 h4
  show ?thesis by simp
qed

text \<open>
  Claim C4. At a pass where \<open>done\<close> has not fired and the timer has not expired: when the
  read failed, \<open>Serve\<close> returns the error of the read, \<open>Handle\<close> is not called and nothing
  is read afterwards; when the read delivered bytes and \<open>Handle\<close> returns an error,
  \<open>Serve\<close> returns that error and nothing is read afterwards. In both cases the passes
  that would follow have no part in the result.
\<close>

theorem Serve_propagates_errors:
  assumes "Serve P H c t pre h = (Blocked, es, h', buf')"
    and "\<not> done_fired st" and "t > 0 \<longrightarrow> timer_active st"
  shows "(arrival st = ReadFailure e \<longrightarrow>
           Serve P H c t (pre @ st # rest) h =
             (Returned (Some e),
              es @ ERead 0 None (Some e) buf' # (if t > 0 then [EReset t] else []), h', buf'))
       \<and> (arrival st = Datagram d a \<and> take (MaxDatagramSize P) d \<noteq> [] \<and>
          H h' (WithTimeout (WithCancel Background) (HandleTimeout P))
             (NewConnectionWriter c (Some a))
             (BytesToMessage P (take (MaxDatagramSize P) d)) (UDPAddrToAddressPort P a)
            = (Some e, h'') \<longrightarrow>
          Serve P H c t (pre @ st # rest) h =
            (Returned (Some e),
             es @ ERead (min (length d) (MaxDatagramSize P)) (Some a) None
                    (take (MaxDatagramSize P) d @ drop (length d) buf')
                # (if t > 0 then [EReset t] else [])
                @ [EHandle (WithTimeout (WithCancel Background) (HandleTimeout P))
                     (NewConnectionWriter c (Some a))
                     (BytesToMessage P (take (MaxDatagramSize P) d)) (UDPAddrToAddressPort P a),
                   ECancelTimeout],
             h'', take (MaxDatagramSize P) d @ drop (length d) buf'))"
proof -
  note ap = Serve_append[OF assms(1)]
  have "arrival st = ReadFailure e \<Longrightarrow>
           Serve P H c t (pre @ st # rest) h =
             (Returned (Some e),
              es @ ERead 0 None (Some e) buf' # (if t > 0 then [EReset t] else []), h', buf')"
    using assms(2,3) by (simp add: ap(1))
  moreover have "arrival st = Datagram d a \<Longrightarrow> take (MaxDatagramSize P) d \<noteq> [] \<Longrightarrow>
         H h' (WithTimeout (WithCancel Background) (HandleTimeout P))
             (NewConnectionWriter c (Some a))
             (BytesToMessage P (take (MaxDatagramSize P) d)) (UDPAddrToAddressPort P a)
           = (Some e, h'') \<Longrightarrow>
         Serve P H c t (pre @ st # rest) h =
           (Returned (Some e),
            es @ ERead (min (length d) (MaxDatagramSize P)) (Some a) None
                   (take (MaxDatagramSize P) d @ drop (length d) buf')
               # (if t > 0 then [EReset t] else [])
               @ [EHandle (WithTimeout (WithCancel Background) (HandleTimeout P))
                    (NewConnectionWriter c (Some a))
                    (BytesToMessage P (take (MaxDatagramSize P) d)) (UDPAddrToAddressPort P a),
                  ECancelTimeout],
            h'', take (MaxDatagramSize P) d @ drop (length d) buf')"
    using assms(2,3) by (simp add: ap doHandle_def Let_def take_min_length take_nonempty_min)
  ultimately show ?thesis by blast
qed

theorem Serve_propagates_errors_witness:
  "Serve demo_pkg failing_handler demo_conn 0 [data_step []] 0
     = (Blocked, [EMake 4, ERead 0 (Some demo_peer) None [0, 0, 0, 0]], 0, [0, 0, 0, 0])
   \<and> \<not> done_fired \<lparr>arrival = ReadFailure (Error ''connection refused''),
                    done_fired = False, timer_active = True\<rparr>
   \<and> Serve demo_pkg failing_handler demo_conn 0
        ([data_step []]
           @ \<lparr>arrival = ReadFailure (Error ''connection refused''),
               done_fired = False, timer_active = True\<rparr> # [data_step [9]]) 0
     = (Returned (Some (Error ''connection refused'')),
        [EMake 4, ERead 0 (Some demo_peer) None [0, 0, 0, 0],
         ERead 0 None (Some (Error ''connection refused'')) [0, 0, 0, 0]], 0, [0, 0, 0, 0])
   \<and> \<not> done_fired (data_step [5, 6])
   \<and> Serve demo_pkg failing_handler demo_conn 0 ([data_step []] @ data_step [5, 6] # [data_step [9]]) 0
     = (Returned (Some (Error ''synthetic'')),
        [EMake 4, ERead 0 (Some demo_peer) None [0, 0, 0, 0],
         ERead 2 (Some demo_peer) None [5, 6, 0, 0],
         EHandle (WithTimeout (WithCancel Background) 1000)
           (NewConnectionWriter demo_conn (Some demo_peer)) [5, 6] demo_peer,
         ECancelTimeout], 1, [5, 6, 0, 0])"
proof -
  have h1: "Serve demo_pkg failing_handler demo_conn 0 [data_step []] 0
     = (Blocked, [EMake 4, ERead 0 (Some demo_peer) None [0, 0, 0, 0]], 0, [0, 0, 0, 0])"
    by (simp add: demo_defs eval_nat_numeral)
  have h2: "\<not> done_fired \<lparr>arrival = ReadFailure (Error ''connection refused''),
                    done_fired = False, timer_active = True\<rparr>"
    by simp
  have h3: "(0::int) > 0 \<longrightarrow> timer_active \<lparr>arrival = ReadFailure (Error ''connection refused''),
                    done_fired = False, timer_active = True\<rparr>"
    by simp
  have k2: "\<not> done_fired (data_step [5, 6])"
    by (simp add: data_step_def)
  have k3: "(0::int) > 0 \<longrightarrow> timer_active (data_step [5, 6])"
    by simp
  from Serve_propagates_errors[OF h1 h2 h3, of "Error ''connection refused''" "[data_step [9]]"]
  have a: "Serve demo_pkg failing_handler demo_conn 0
        ([data_step []]
           @ \<lparr>arrival = ReadFailure (Error ''connection refused''),
               done_fired = False, timer_active = True\<rparr> # [data_step [9]]) 0
     = (Returned (Some (Error ''connection refused'')),
        [EMake 4, ERead 0 (Some demo_peer) None [0, 0, 0, 0],
         ERead 0 None (Some (Error ''connection refused'')) [0, 0, 0, 0]], 0, [0, 0, 0, 0])"
    by simp
  from Serve_propagates_errors[OF h1 k2 k3, of "Error ''synthetic''" "[data_step [9]]"
         "[5, 6]" demo_peer 1]
  have b: "Serve demo_pkg failing_handler demo_conn 0
        ([data_step []] @ data_step [5, 6] # [data_step [9]]) 0
     = (Returned (Some (Error ''synthetic'')),
        [EMake 4, ERead 0 (Some demo_peer) None [0, 0, 0, 0],
         ERead 2 (Some demo_peer) None [5, 6, 0, 0],
         EHandle (WithTimeout (WithCancel Background) 1000)
           (NewConnectionWriter demo_conn (Some demo_peer)) [5, 6] demo_peer,
         ECancelTimeout], 1, [5, 6, 0, 0])"
    by (simp add: data_step_def demo_pkg_def failing_handler_def)
  from h1 h2 k2 a b show ?thesis by simp
qed



text \<open>
  Claim C6. A read that returns zero bytes is not dispatched: \<open>doHandle\<close> on the empty
  slice returns \<open>nil\<close> without a call of \<open>Handle\<close> and without touching the handler's
  state, and \<open>Serve\<close> goes on to the next read with the buffer and the handler's state as
  they were.
\<close>

theorem empty_datagram_no_dispatch:
  assumes "Serve P H c t pre h = (Blocked, es, h', buf')"
    and "\<not> done_fired st" and "t > 0 \<longrightarrow> timer_active st"
    and "arrival st = Datagram d a" and "take (MaxDatagramSize P) d = []"
  shows "doHandle P H [] c (Some a) h' = (Ret None, [], h') \<and>
         Serve P H c t (pre @ st # rest) h =
           emit (es @ ERead 0 (Some a) None buf' # (if t > 0 then [EReset t] else []))
             (Serve_loop P H c t rest buf' h')"
proof -
  note ap = Serve_append[OF assms(1)]
  from assms(5) ap(2) have "take (length buf') d = []"
    by simp
  then have b: "take (length buf') d @ drop (length d) buf' = buf'"
    by (rule take_empty_buffer)
  from assms(5) ap(2) have n: "min (length d) (length buf') = 0"
    by (simp add: take_empty_min)
  have dh: "doHandle P H [] c (Some a) h' = (Ret None, [], h')"
    by (simp add: doHandle_def)
  from assms(4) b n have rd: "ReadFromUDP (arrival st) buf' = ((0, Some a, None), buf')"
    by simp
  from dh have dh': "doHandle P H (take 0 buf') c (Some a) h' = (Ret None, [], h')"
    by simp
  have "Serve P H c t (pre @ st # rest) h =
           emit (es @ ERead 0 (Some a) None buf' # (if t > 0 then [EReset t] else []))
             (Serve_loop P H c t rest buf' h')"
    by (simp only: ap(1) Serve_loop_continue[OF assms(2,3) rd dh'] emit_emit
          append_Nil2 append_Cons append_Nil)
  with dh show ?thesis by simp
qed

theorem empty_datagram_no_dispatch_witness:
  "Serve demo_pkg counting_handler demo_conn 0 [data_step [1, 2]] 0
     = (Blocked,
        [EMake 4, ERead 2 (Some demo_peer) None [1, 2, 0, 0],
         EHandle (WithTimeout (WithCancel Background) 1000)
           (NewConnectionWriter demo_conn (Some demo_peer)) [1, 2] demo_peer,
         ECancelTimeout], 1, [1, 2, 0, 0])
   \<and> \<not> done_fired (data_step []) \<and> arrival (data_step []) = Datagram [] demo_peer
   \<and> doHandle demo_pkg counting_handler [] demo_conn (Some demo_peer) 1 = (Ret None, [], 1)
   \<and> Serve demo_pkg counting_handler demo_conn 0
        ([data_step [1, 2]] @ data_step [] # [data_step [3]]) 0
     = (Blocked,
        [EMake 4, ERead 2 (Some demo_peer) None [1, 2, 0, 0],
         EHandle (WithTimeout (WithCancel Background) 1000)
           (NewConnectionWriter demo_conn (Some demo_peer)) [1, 2] demo_peer,
         ECancelTimeout,
         ERead 0 (Some demo_peer) None [1, 2, 0, 0],
         ERead 1 (Some demo_peer) None [3, 2, 0, 0],
         EHandle (WithTimeout (WithCancel Background) 1000)
           (NewConnectionWriter demo_conn (Some demo_peer)) [3] demo_peer,
         ECancelTimeout], 2, [3, 2, 0, 0])"
proof -
  have h1: "Serve demo_pkg counting_handler demo_conn 0 [data_step [1, 2]] 0
     = (Blocked,
        [EMake 4, ERead 2 (Some demo_peer) None [1, 2, 0, 0],
         EHandle (WithTimeout (WithCancel Background) 1000)
           (NewConnectionWriter demo_conn (Some demo_peer)) [1, 2] demo_peer,
         ECancelTimeout], 1, [1, 2, 0, 0])"
    by (simp add: demo_defs eval_nat_numeral)
  have h2: "\<not> done_fired (data_step [])"
    by (simp add: data_step_def)
  have h3: "(0::int) > 0 \<longrightarrow> timer_active (data_step [])"
    by simp
  have h4: "arrival (data_step []) = Datagram [] demo_peer"
    by (simp add: data_step_def)
  have h5: "take (MaxDatagramSize demo_pkg) ([] :: byte list) = []"
    by simp
  from empty_datagram_no_dispatch[OF h1 h2 h3 h4 h5, of "[data_step [3]]"] h1 h2 h4
  show ?thesis
    by (simp add: data_step_def demo_pkg_def counting_handler_def doHandle_def demo_peer_def)
qed

text \<open>
  Claim C7, as the code has it. \<open>Serve\<close> makes its buffer itself: of all its calls, the
  only one that makes a buffer or goes to the buffer pool is the one
  \<open>make([]byte, MaxDatagramSize)\<close> before the loop; \<open>GetBufferPool\<close>, \<open>Get\<close> and \<open>Put\<close>
  are never called.
\<close>

theorem Serve_makes_its_buffer:
  "filter (\<lambda>e. is_pool_call e \<or> is_make e) (effects_of (Serve P H c t script h))
     = [EMake (MaxDatagramSize P)]"
  by (simp add: Serve_def effects_of_emit Serve_loop_no_buffer_source)

text \<open>
  Claim C7 as it is stated fails: in a run that reads and dispatches one datagram, the
  calls of \<open>Serve\<close> begin with \<open>make\<close> and none of them is a call of the pool.
\<close>

theorem Serve_buffer_from_pool_counterexample:
  "effects_of (Serve demo_pkg counting_handler demo_conn 0 [data_step [1, 2]] 0)
     = [EMake 4, ERead 2 (Some demo_peer) None [1, 2, 0, 0],
        EHandle (WithTimeout (WithCancel Background) 1000)
          (NewConnectionWriter demo_conn (Some demo_peer)) [1, 2] demo_peer,
        ECancelTimeout]
   \<and> EGetBufferPool \<notin> set (effects_of (Serve demo_pkg counting_handler demo_conn 0 [data_step [1, 2]] 0))
   \<and> EPoolGet \<notin> set (effects_of (Serve demo_pkg counting_handler demo_conn 0 [data_step [1, 2]] 0))"
  by (simp add: demo_defs eval_nat_numeral)

section \<open>The claims about the buffer pool\<close>

lemma removed_subset: "set (take i xs @ drop (Suc i) xs) \<subseteq> set xs"
  using set_take_subset[of i xs] set_drop_subset[of "Suc i" xs] by auto

lemma Get_sized:
  assumes "\<forall>b \<in> set (pool bp). length b = N"
    and "(Get N bp pick :: byte list \<times> bufferPool \<times> ('msg, 'ap) effect list) = (b, bp', es)"
  shows "length b = N \<and> (\<forall>b \<in> set (pool bp'). length b = N)"
proof (cases "\<exists>i. pick = Some i \<and> i < length (pool bp)")
  case True
  then obtain i where i: "pick = Some i" "i < length (pool bp)" by blast
  with assms(2) have b: "b = pool bp ! i"
    and p: "pool bp' = take i (pool bp) @ drop (Suc i) (pool bp)"
    by (auto simp: Get_def)
  from i(2) assms(1) b have "length b = N" by simp
  moreover from p removed_subset[of i "pool bp"] assms(1)
  have "\<forall>b \<in> set (pool bp'). length b = N" by auto
  ultimately show ?thesis by simp
next
  case False
  with assms(2) have "b = make_bytes N" and "bp' = bp"
    by (auto simp: Get_def newBuffer_def split: option.splits if_splits)
  with assms(1) show ?thesis by (simp add: make_bytes_def)
qed

lemma pool_client_sized:
  fixes ops :: "pool_op list"
  assumes "pool_inv N g" and "\<forall>b. OpPut b \<in> set ops \<longrightarrow> length b = N"
  shows "\<exists>bs. fst (pool_client N ops g
                 :: byte list list res \<times> ('msg, 'ap) effect list \<times> globals) = Ret bs
            \<and> (\<forall>b \<in> set bs. length b = N)"
  using assms
proof (induction ops arbitrary: g)
  case Nil
  show ?case by simp
next
  case (Cons x xs)
  obtain g1 es0 where gb: "(GetBufferPool g :: globals \<times> ('msg, 'ap) effect list) = (g1, es0)"
    by (cases "GetBufferPool g :: globals \<times> ('msg, 'ap) effect list") auto
  have "\<exists>bp. singletonBufferPool g1 = Some bp \<and> (\<forall>b \<in> set (pool bp). length b = N) \<and> once g1"
  proof (cases "once g")
    case True
    with Cons.prems(1) gb show ?thesis
      by (auto simp: pool_inv_def GetBufferPool_def)
  next
    case False
    with gb show ?thesis
      by (auto simp: GetBufferPool_def)
  qed
  then obtain bp where bp: "singletonBufferPool g1 = Some bp"
    and sized: "\<forall>b \<in> set (pool bp). length b = N" and o1: "once g1"
    by blast
  from Cons.prems(2) have rest: "\<forall>b. OpPut b \<in> set xs \<longrightarrow> length b = N"
    by simp
  show ?case
  proof (cases x)
    case (OpPut b)
    with Cons.prems(2) have lb: "length b = N" by simp
    obtain bp' es2 where pt: "(Put bp b :: bufferPool \<times> ('msg, 'ap) effect list) = (bp', es2)"
      by (cases "Put bp b :: bufferPool \<times> ('msg, 'ap) effect list") auto
    with sized lb have sized': "\<forall>b \<in> set (pool bp'). length b = N"
      by (auto simp: Put_def)
    let ?g2 = "g1\<lparr>singletonBufferPool := Some bp'\<rparr>"
    from sized' o1 have "pool_inv N ?g2"
      by (simp add: pool_inv_def)
    from Cons.IH[OF this rest] obtain bs where
      bs: "fst (pool_client N xs ?g2
             :: byte list list res \<times> ('msg, 'ap) effect list \<times> globals) = Ret bs"
      "\<forall>b \<in> set bs. length b = N"
      by blast
    obtain es3 g3 where
      "(pool_client N xs ?g2 :: byte list list res \<times> ('msg, 'ap) effect list \<times> globals)
         = (Ret bs, es3, g3)"
      using bs(1)
      by (cases "pool_client N xs ?g2
                   :: byte list list res \<times> ('msg, 'ap) effect list \<times> globals") auto
    with OpPut gb bp pt bs(2) show ?thesis
      by simp
  next
    case (OpGet pick)
    obtain b bp' es2 where
      gt: "(Get N bp pick :: byte list \<times> bufferPool \<times> ('msg, 'ap) effect list) = (b, bp', es2)"
      by (cases "Get N bp pick :: byte list \<times> bufferPool \<times> ('msg, 'ap) effect list") auto
    from Get_sized[OF sized gt]
    have lb: "length b = N" and sized': "\<forall>b \<in> set (pool bp'). length b = N"
      by simp_all
    let ?g2 = "g1\<lparr>singletonBufferPool := Some bp'\<rparr>"
    from sized' o1 have "pool_inv N ?g2"
      by (simp add: pool_inv_def)
    from Cons.IH[OF this rest] obtain bs where
      bs: "fst (pool_client N xs ?g2
             :: byte list list res \<times> ('msg, 'ap) effect list \<times> globals) = Ret bs"
      "\<forall>b \<in> set bs. length b = N"
      by blast
    obtain es3 g3 where
      "(pool_client N xs ?g2 :: byte list list res \<times> ('msg, 'ap) effect list \<times> globals)
         = (Ret bs, es3, g3)"
      using bs(1)
      by (cases "pool_client N xs ?g2
                   :: byte list list res \<times> ('msg, 'ap) effect list \<times> globals") auto
    with OpGet gb bp gt lb bs(2) show ?thesis
      by simp
  qed
qed

lemma pool_inv_init: "pool_inv N init_globals"
  by (simp add: pool_inv_def init_globals_def)

text \<open>
  Claim C9. Starting from the package as it is before the pool's first use, when every
  buffer a client passes to \<open>Put\<close> has length \<open>MaxDatagramSize\<close>, no call panics and every
  buffer \<open>Get\<close> returns has length \<open>MaxDatagramSize\<close>, whichever buffers the runtime picks.
  The contents are not reset: a buffer that was put and is handed out again comes back
  as it was put.
\<close>

theorem Get_returns_sized_buffers:
  "((\<forall>b. OpPut b \<in> set ops \<longrightarrow> length b = N) \<longrightarrow>
      (\<exists>bs. fst (pool_client N ops init_globals
                  :: byte list list res \<times> ('msg, 'ap) effect list \<times> globals) = Ret bs
         \<and> (\<forall>b \<in> set bs. length b = N)))
   \<and> fst (Get N (fst (Put bp b0 :: bufferPool \<times> ('msg, 'ap) effect list)) (Some 0)
           :: byte list \<times> bufferPool \<times> ('msg, 'ap) effect list) = b0"
  using pool_client_sized[OF pool_inv_init, of ops N]
  by (auto simp: Put_def Get_def)

theorem Get_returns_sized_buffers_witness:
  "length [7, 7, 7, 7 :: byte] = 4
   \<and> fst (pool_client 4 [OpPut [7, 7, 7, 7], OpGet (Some 0), OpGet None] init_globals
            :: byte list list res \<times> (unit, unit) effect list \<times> globals)
       = Ret [[7, 7, 7, 7], [0, 0, 0, 0]]
   \<and> length [0, 0, 0, 0 :: byte] = 4
   \<and> fst (Get 4 (fst (Put \<lparr>pool = []\<rparr> [7, 7, 7, 7] :: bufferPool \<times> (unit, unit) effect list))
            (Some 0) :: byte list \<times> bufferPool \<times> (unit, unit) effect list) = [7, 7, 7, 7]"
proof -
  have h: "\<forall>b. OpPut b \<in> set [OpPut [7, 7, 7, 7], OpGet (Some 0), OpGet None] \<longrightarrow> length b = 4"
    by simp
  have c: "fst (pool_client 4 [OpPut [7, 7, 7, 7], OpGet (Some 0), OpGet None] init_globals
            :: byte list list res \<times> (unit, unit) effect list \<times> globals)
       = Ret [[7, 7, 7, 7], [0, 0, 0, 0]]"
    by (simp add: init_globals_def GetBufferPool_def Put_def Get_def newBuffer_def make_bytes_def
          eval_nat_numeral)
  from Get_returns_sized_buffers[of "[OpPut [7, 7, 7, 7], OpGet (Some 0), OpGet None]" 4
         "\<lparr>pool = []\<rparr>" "[7, 7, 7, 7]", where ?'msg = unit and ?'ap = unit] h c
  show ?thesis by (simp add: Put_def Get_def)
qed

section \<open>The claims about the socket factory\<close>

lemma options_write_fails:
  "SetWriteBuffer E c N = Some e \<Longrightarrow> setSRCSConnectionOptions E N c = (Some e, c)"
  by (simp add: setSRCSConnectionOptions_def)

lemma options_read_fails:
  "SetWriteBuffer E c N = None \<Longrightarrow> SetReadBuffer E (c\<lparr>sndbuf := N\<rparr>) N = Some e \<Longrightarrow>
   setSRCSConnectionOptions E N c = (Some e, c\<lparr>sndbuf := N\<rparr>)"
  by (simp add: setSRCSConnectionOptions_def)

lemma options_succeed:
  "SetWriteBuffer E c N = None \<Longrightarrow> SetReadBuffer E (c\<lparr>sndbuf := N\<rparr>) N = None \<Longrightarrow>
   setSRCSConnectionOptions E N c = (None, c\<lparr>sndbuf := N, rcvbuf := N\<rparr>)"
  by (simp add: setSRCSConnectionOptions_def)

lemmas net_defs = demo_net_def demo_port_def Dial_def Listen_def setSRCSConnectionOptions_def

text \<open>
  Claim C8. \<open>Dial\<close> and \<open>Listen\<close> resolve the address first and return the error of the
  resolution when it fails. Otherwise \<open>Dial\<close> opens a socket with \<open>DialUDP\<close> to the
  resolved address, with no local address, and \<open>Listen\<close> one with \<open>ListenUDP\<close> on the
  resolved address; then the write buffer and the read buffer are set to
  \<open>MaxDatagramSize\<close>, in that order. The error of the first of these calls that fails is
  returned; when none fails the connection, with both sizes set and nothing else changed,
  is returned with a \<open>nil\<close> error.
\<close>

theorem Dial_Listen_contract:
  "(ResolveUDPAddr E addr = Inl e \<longrightarrow>
      Dial E N addr = (None, Some e) \<and> Listen E N addr = (None, Some e))
   \<and> (ResolveUDPAddr E addr = Inr a \<and> DialUDP E None a = Inl e \<longrightarrow>
      Dial E N addr = (None, Some e))
   \<and> (ResolveUDPAddr E addr = Inr a \<and> ListenUDP E a = Inl e \<longrightarrow>
      Listen E N addr = (None, Some e))
   \<and> (ResolveUDPAddr E addr = Inr a \<and> DialUDP E None a = Inr c \<longrightarrow>
        (SetWriteBuffer E c N = Some e \<longrightarrow> Dial E N addr = (None, Some e))
      \<and> (SetWriteBuffer E c N = None \<and> SetReadBuffer E (c\<lparr>sndbuf := N\<rparr>) N = Some e \<longrightarrow>
           Dial E N addr = (None, Some e))
      \<and> (SetWriteBuffer E c N = None \<and> SetReadBuffer E (c\<lparr>sndbuf := N\<rparr>) N = None \<longrightarrow>
           Dial E N addr = (Some (c\<lparr>sndbuf := N, rcvbuf := N\<rparr>), None)))
   \<and> (ResolveUDPAddr E addr = Inr a \<and> ListenUDP E a = Inr c \<longrightarrow>
        (SetWriteBuffer E c N = Some e \<longrightarrow> Listen E N addr = (None, Some e))
      \<and> (SetWriteBuffer E c N = None \<and> SetReadBuffer E (c\<lparr>sndbuf := N\<rparr>) N = Some e \<longrightarrow>
           Listen E N addr = (None, Some e))
      \<and> (SetWriteBuffer E c N = None \<and> SetReadBuffer E (c\<lparr>sndbuf := N\<rparr>) N = None \<longrightarrow>
           Listen E N addr = (Some (c\<lparr>sndbuf := N, rcvbuf := N\<rparr>), None)))"
  by (simp add: Dial_def Listen_def options_write_fails options_read_fails options_succeed)

theorem Dial_Listen_contract_witness:
  "ResolveUDPAddr demo_net ''nowhere'' = Inl (Error ''missing port in address'')
   \<and> Dial demo_net 1400 ''nowhere'' = (None, Some (Error ''missing port in address''))
   \<and> Listen demo_net 1400 ''nowhere'' = (None, Some (Error ''missing port in address''))
   \<and> ResolveUDPAddr demo_net ''h:1'' = Inr (UDPAddr [10, 0, 0, 1] 1)
   \<and> DialUDP demo_net None (UDPAddr [10, 0, 0, 1] 1) = Inl (Error ''connect: network is unreachable'')
   \<and> Dial demo_net 1400 ''h:1'' = (None, Some (Error ''connect: network is unreachable''))
   \<and> ListenUDP demo_net (UDPAddr [10, 0, 0, 1] 1) = Inl (Error ''bind: permission denied'')
   \<and> Listen demo_net 1400 ''h:1'' = (None, Some (Error ''bind: permission denied''))
   \<and> Dial demo_net 1400 ''h:2'' = (None, Some (Error ''setsockopt: SO_SNDBUF''))
   \<and> Listen demo_net 1400 ''h:3'' = (None, Some (Error ''setsockopt: SO_RCVBUF''))
   \<and> Dial demo_net 1400 ''h:27015''
       = (Some \<lparr>fd = 3, remote_addr = Some (UDPAddr [10, 0, 0, 1] 27015), local_addr = None,
                sndbuf = 1400, rcvbuf = 1400\<rparr>, None)
   \<and> Listen demo_net 1400 ''h:27015''
       = (Some \<lparr>fd = 4, remote_addr = None, local_addr = Some (UDPAddr [10, 0, 0, 1] 27015),
                sndbuf = 1400, rcvbuf = 1400\<rparr>, None)"
proof -
  have r0: "ResolveUDPAddr demo_net ''nowhere'' = Inl (Error ''missing port in address'')"
    and r1: "ResolveUDPAddr demo_net ''h:1'' = Inr (UDPAddr [10, 0, 0, 1] 1)"
    and r2: "ResolveUDPAddr demo_net ''h:2'' = Inr (UDPAddr [10, 0, 0, 1] 2)"
    and r3: "ResolveUDPAddr demo_net ''h:3'' = Inr (UDPAddr [10, 0, 0, 1] 3)"
    and r4: "ResolveUDPAddr demo_net ''h:27015'' = Inr (UDPAddr [10, 0, 0, 1] 27015)"
    by (simp_all add: demo_net_def)
  have d1: "DialUDP demo_net None (UDPAddr [10, 0, 0, 1] 1)
              = Inl (Error ''connect: network is unreachable'')"
    and l1: "ListenUDP demo_net (UDPAddr [10, 0, 0, 1] 1) = Inl (Error ''bind: permission denied'')"
    and d2: "DialUDP demo_net None (UDPAddr [10, 0, 0, 1] 2)
              = Inr \<lparr>fd = 3, remote_addr = Some (UDPAddr [10, 0, 0, 1] 2), local_addr = None,
                     sndbuf = 212992, rcvbuf = 212992\<rparr>"
    and l3: "ListenUDP demo_net (UDPAddr [10, 0, 0, 1] 3)
              = Inr \<lparr>fd = 4, remote_addr = None, local_addr = Some (UDPAddr [10, 0, 0, 1] 3),
                     sndbuf = 212992, rcvbuf = 212992\<rparr>"
    and d4: "DialUDP demo_net None (UDPAddr [10, 0, 0, 1] 27015)
              = Inr \<lparr>fd = 3, remote_addr = Some (UDPAddr [10, 0, 0, 1] 27015), local_addr = None,
                     sndbuf = 212992, rcvbuf = 212992\<rparr>"
    and l4: "ListenUDP demo_net (UDPAddr [10, 0, 0, 1] 27015)
              = Inr \<lparr>fd = 4, remote_addr = None, local_addr = Some (UDPAddr [10, 0, 0, 1] 27015),
                     sndbuf = 212992, rcvbuf = 212992\<rparr>"
    by (simp_all add: demo_net_def)
  from Dial_Listen_contract[where E = demo_net and addr = "''nowhere''" and N = 1400
         and e = "Error ''missing port in address''"] r0
  have c0: "Dial demo_net 1400 ''nowhere'' = (None, Some (Error ''missing port in address''))"
    "Listen demo_net 1400 ''nowhere'' = (None, Some (Error ''missing port in address''))"
    by simp_all
  from Dial_Listen_contract[where E = demo_net and addr = "''h:1''" and N = 1400
         and a = "UDPAddr [10, 0, 0, 1] 1" and e = "Error ''connect: network is unreachable''"] r1 d1
  have c1: "Dial demo_net 1400 ''h:1'' = (None, Some (Error ''connect: network is unreachable''))"
    by simp
  from Dial_Listen_contract[where E = demo_net and addr = "''h:1''" and N = 1400
         and a = "UDPAddr [10, 0, 0, 1] 1" and e = "Error ''bind: permission denied''"] r1 l1
  have c2: "Listen demo_net 1400 ''h:1'' = (None, Some (Error ''bind: permission denied''))"
    by simp
  from Dial_Listen_contract[where E = demo_net and addr = "''h:2''" and N = 1400
         and a = "UDPAddr [10, 0, 0, 1] 2" and e = "Error ''setsockopt: SO_SNDBUF''"
         and c = "\<lparr>fd = 3, remote_addr = Some (UDPAddr [10, 0, 0, 1] 2), local_addr = None,
                     sndbuf = 212992, rcvbuf = 212992\<rparr>"] r2 d2
  have c3: "Dial demo_net 1400 ''h:2'' = (None, Some (Error ''setsockopt: SO_SNDBUF''))"
    by (simp add: demo_net_def demo_port_def)
  from Dial_Listen_contract[where E = demo_net and addr = "''h:3''" and N = 1400
         and a = "UDPAddr [10, 0, 0, 1] 3" and e = "Error ''setsockopt: SO_RCVBUF''"
         and c = "\<lparr>fd = 4, remote_addr = None, local_addr = Some (UDPAddr [10, 0, 0, 1] 3),
                     sndbuf = 212992, rcvbuf = 212992\<rparr>"] r3 l3
  have c4: "Listen demo_net 1400 ''h:3'' = (None, Some (Error ''setsockopt: SO_RCVBUF''))"
    by (simp add: demo_net_def demo_port_def)
  from Dial_Listen_contract[where E = demo_net and addr = "''h:27015''" and N = 1400
         and a = "UDPAddr [10, 0, 0, 1] 27015"
         and c = "\<lparr>fd = 3, remote_addr = Some (UDPAddr [10, 0, 0, 1] 27015), local_addr = None,
                     sndbuf = 212992, rcvbuf = 212992\<rparr>"] r4 d4
  have c5: "Dial demo_net 1400 ''h:27015''
       = (Some \<lparr>fd = 3, remote_addr = Some (UDPAddr [10, 0, 0, 1] 27015), local_addr = None,
                sndbuf = 1400, rcvbuf = 1400\<rparr>, None)"
    by (simp add: demo_net_def demo_port_def)
  from Dial_Listen_contract[where E = demo_net and addr = "''h:27015''" and N = 1400
         and a = "UDPAddr [10, 0, 0, 1] 27015"
         and c = "\<lparr>fd = 4, remote_addr = None, local_addr = Some (UDPAddr [10, 0, 0, 1] 27015),
                     sndbuf = 212992, rcvbuf = 212992\<rparr>"] r4 l4
  have c6: "Listen demo_net 1400 ''h:27015''
       = (Some \<lparr>fd = 4, remote_addr = None, local_addr = Some (UDPAddr [10, 0, 0, 1] 27015),
                sndbuf = 1400, rcvbuf = 1400\<rparr>, None)"
    by (simp add: demo_net_def demo_port_def)
  from r0 r1 d1 l1 c0 c1 c2 c3 c4 c5 c6 show ?thesis by simp
qed

text \<open>
  Claim C10. Whenever \<open>Dial\<close> or \<open>Listen\<close> returns an error, the connection returned with
  it is \<open>nil\<close>; so it is when the socket was opened and setting its buffer sizes failed:
  the opened connection is not returned.
\<close>

theorem Dial_Listen_error_returns_nil_connection:
  "(snd (Dial E N addr) \<noteq> None \<longrightarrow> fst (Dial E N addr) = None)
   \<and> (snd (Listen E N addr) \<noteq> None \<longrightarrow> fst (Listen E N addr) = None)
   \<and> (ResolveUDPAddr E addr = Inr a \<and> DialUDP E None a = Inr c
        \<and> fst (setSRCSConnectionOptions E N c) = Some e \<longrightarrow> Dial E N addr = (None, Some e))
   \<and> (ResolveUDPAddr E addr = Inr a \<and> ListenUDP E a = Inr c
        \<and> fst (setSRCSConnectionOptions E N c) = Some e \<longrightarrow> Listen E N addr = (None, Some e))"
  by (auto simp: Dial_def Listen_def split: sum.splits prod.splits option.splits)

theorem Dial_Listen_error_returns_nil_connection_witness:
  "snd (Dial demo_net 1400 ''h:2'') \<noteq> None \<and> fst (Dial demo_net 1400 ''h:2'') = None
   \<and> snd (Listen demo_net 1400 ''nowhere'') \<noteq> None \<and> fst (Listen demo_net 1400 ''nowhere'') = None
   \<and> ResolveUDPAddr demo_net ''h:3'' = Inr (UDPAddr [10, 0, 0, 1] 3)
   \<and> ListenUDP demo_net (UDPAddr [10, 0, 0, 1] 3)
       = Inr \<lparr>fd = 4, remote_addr = None, local_addr = Some (UDPAddr [10, 0, 0, 1] 3),
              sndbuf = 212992, rcvbuf = 212992\<rparr>
   \<and> fst (setSRCSConnectionOptions demo_net 1400
        \<lparr>fd = 4, remote_addr = None, local_addr = Some (UDPAddr [10, 0, 0, 1] 3),
         sndbuf = 212992, rcvbuf = 212992\<rparr>) = Some (Error ''setsockopt: SO_RCVBUF'')
   \<and> Listen demo_net 1400 ''h:3'' = (None, Some (Error ''setsockopt: SO_RCVBUF''))
   \<and> ResolveUDPAddr demo_net ''h:2'' = Inr (UDPAddr [10, 0, 0, 1] 2)
   \<and> DialUDP demo_net None (UDPAddr [10, 0, 0, 1] 2)
       = Inr \<lparr>fd = 3, remote_addr = Some (UDPAddr [10, 0, 0, 1] 2), local_addr = None,
              sndbuf = 212992, rcvbuf = 212992\<rparr>
   \<and> fst (setSRCSConnectionOptions demo_net 1400
        \<lparr>fd = 3, remote_addr = Some (UDPAddr [10, 0, 0, 1] 2), local_addr = None,
         sndbuf = 212992, rcvbuf = 212992\<rparr>) = Some (Error ''setsockopt: SO_SNDBUF'')
   \<and> Dial demo_net 1400 ''h:2'' = (None, Some (Error ''setsockopt: SO_SNDBUF''))"
proof -
  have e1: "snd (Dial demo_net 1400 ''h:2'') \<noteq> None"
    and e2: "snd (Listen demo_net 1400 ''nowhere'') \<noteq> None"
    by (simp_all add: net_defs)
  have r3: "ResolveUDPAddr demo_net ''h:3'' = Inr (UDPAddr [10, 0, 0, 1] 3)"
    and l3: "ListenUDP demo_net (UDPAddr [10, 0, 0, 1] 3)
       = Inr \<lparr>fd = 4, remote_addr = None, local_addr = Some (UDPAddr [10, 0, 0, 1] 3),
              sndbuf = 212992, rcvbuf = 212992\<rparr>"
    and o3: "fst (setSRCSConnectionOptions demo_net 1400
        \<lparr>fd = 4, remote_addr = None, local_addr = Some (UDPAddr [10, 0, 0, 1] 3),
         sndbuf = 212992, rcvbuf = 212992\<rparr>) = Some (Error ''setsockopt: SO_RCVBUF'')"
    and r2: "ResolveUDPAddr demo_net ''h:2'' = Inr (UDPAddr [10, 0, 0, 1] 2)"
    and d2: "DialUDP demo_net None (UDPAddr [10, 0, 0, 1] 2)
       = Inr \<lparr>fd = 3, remote_addr = Some (UDPAddr [10, 0, 0, 1] 2), local_addr = None,
              sndbuf = 212992, rcvbuf = 212992\<rparr>"
    and o2: "fst (setSRCSConnectionOptions demo_net 1400
        \<lparr>fd = 3, remote_addr = Some (UDPAddr [10, 0, 0, 1] 2), local_addr = None,
         sndbuf = 212992, rcvbuf = 212992\<rparr>) = Some (Error ''setsockopt: SO_SNDBUF'')"
    by (simp_all add: net_defs)
  from Dial_Listen_error_returns_nil_connection[where E = demo_net and N = 1400
         and addr = "''h:2''" and a = "UDPAddr [10, 0, 0, 1] 2"
         and e = "Error ''setsockopt: SO_SNDBUF''"
         and c = "\<lparr>fd = 3, remote_addr = Some (UDPAddr [10, 0, 0, 1] 2), local_addr = None,
                     sndbuf = 212992, rcvbuf = 212992\<rparr>"] e1 r2 d2 o2
  have c1: "fst (Dial demo_net 1400 ''h:2'') = None"
    and c2: "Dial demo_net 1400 ''h:2'' = (None, Some (Error ''setsockopt: SO_SNDBUF''))"
    by simp_all
  from Dial_Listen_error_returns_nil_connection[where E = demo_net and N = 1400
         and addr = "''nowhere''"] e2
  have c3: "fst (Listen demo_net 1400 ''nowhere'') = None"
    by simp
  from Dial_Listen_error_returns_nil_connection[where E = demo_net and N = 1400
         and addr = "''h:3''" and a = "UDPAddr [10, 0, 0, 1] 3"
         and e = "Error ''setsockopt: SO_RCVBUF''"
         and c = "\<lparr>fd = 4, remote_addr = None, local_addr = Some (UDPAddr [10, 0, 0, 1] 3),
                     sndbuf = 212992, rcvbuf = 212992\<rparr>"] r3 l3 o3
  have c4: "Listen demo_net 1400 ''h:3'' = (None, Some (Error ''setsockopt: SO_RCVBUF''))"
    by simp
  from e1 e2 r3 l3 o3 r2 d2 o2 c1 c2 c3 c4 show ?thesis by simp
qed

end
